theory Spec2Isabelle
  imports Complex_Main "HOL-Library.Sublist"
begin

section \<open>Errors and controller states (base.py)\<close>

text \<open>
  The exception classes of base.py, together with the built-in Python exceptions that
  the modelled code can raise. \<open>BackendError\<close> stands for any exception thrown by a
  vendor runtime call (a .NET or COM exception surfacing in Python) and
  \<open>ObserverError\<close> for an exception thrown by a registered callback. Every one of
  them is a subclass of Python's \<open>Exception\<close>, so an \<open>except Exception\<close> clause
  catches each of them.
\<close>

datatype py_error =
    TypeError
  | ValueError
  | ZeroDivisionError
  | RuntimeError
  | IOError
  | ConnectionError
  | CommunicationError
  | MovementError
  | ConfigurationError
  | BackendError
  | ObserverError

datatype ControllerState =
    DISCONNECTED
  | CONNECTING
  | CONNECTED
  | HOMING
  | MOVING
  | ERROR

text \<open>\<open>MotorController.is_connected\<close>: membership in a three-element tuple.\<close>

definition MotorController_is_connected :: "ControllerState \<Rightarrow> bool" where
  "MotorController_is_connected st = (st \<in> set [CONNECTED, HOMING, MOVING])"

text \<open>\<open>PiezoController.is_connected\<close>: anything but \<open>DISCONNECTED\<close>.\<close>

definition PiezoController_is_connected :: "ControllerState \<Rightarrow> bool" where
  "PiezoController_is_connected st = (st \<noteq> DISCONNECTED)"


section \<open>Python text primitives used by the registry\<close>

text \<open>
  \<open>str(n)\<close> for an integer: the decimal digits, most significant first, with a leading
  minus sign for a negative number.
\<close>

definition digit_char :: "nat \<Rightarrow> char" where
  "digit_char d = ''0123456789'' ! d"

function str_nat :: "nat \<Rightarrow> string" where
  "str_nat n = (if n < 10 then [digit_char n] else str_nat (n div 10) @ [digit_char (n mod 10)])"
  by pat_completeness auto
termination
  by (relation "measure id") auto

declare str_nat.simps [simp del]

text \<open>A text made of decimal digits only.\<close>

definition is_digits :: "string \<Rightarrow> bool" where
  "is_digits cs = (\<forall>c \<in> set cs. \<exists>d<10. c = digit_char d)"

definition py_str :: "int \<Rightarrow> string" where
  "py_str i = (if i < 0 then CHR ''-'' # str_nat (nat (- i)) else str_nat (nat i))"

text \<open>
  \<open>int(s)\<close> on the texts that a slice of \<open>str(n)\<close> can be: decimal digits with an
  optional leading minus sign. Anything else raises \<open>ValueError\<close>.
\<close>

definition digit_val :: "char \<Rightarrow> nat option" where
  "digit_val c = map_of (zip ''0123456789'' [0, 1, 2, 3, 4, 5, 6, 7, 8, 9]) c"

fun parse_digits :: "nat \<Rightarrow> string \<Rightarrow> nat option" where
  "parse_digits acc [] = Some acc"
| "parse_digits acc (c # cs) =
     (case digit_val c of None \<Rightarrow> None | Some d \<Rightarrow> parse_digits (10 * acc + d) cs)"

definition py_int :: "string \<Rightarrow> py_error + int" where
  "py_int s =
     (case s of
        [] \<Rightarrow> Inl ValueError
      | c # cs \<Rightarrow>
          if c = CHR ''-'' then
            (if cs = [] then Inl ValueError
             else case parse_digits 0 cs of
                    None \<Rightarrow> Inl ValueError
                  | Some n \<Rightarrow> Inr (- int n))
          else
            (case parse_digits 0 s of
               None \<Rightarrow> Inl ValueError
             | Some n \<Rightarrow> Inr (int n)))"


section \<open>Controller registry (controllers.py)\<close>

text \<open>
  One entry of \<open>CONTROLLERS\<close>. Floating-point limits and the vendor library names are
  metadata that no modelled operation reads; they are left out. \<open>apt_hw_type = None\<close>
  is Python's \<open>None\<close>.
\<close>

record controller_info =
  prefix :: int
  channels :: nat
  motor_type :: string
  description :: string
  apt_hw_type :: "int option"
  supports_homing :: bool
  supports_position :: bool

definition CONTROLLERS :: "(string \<times> controller_info) list" where
  "CONTROLLERS =
    [(''KDC101'', \<lparr>prefix = 27, channels = 1, motor_type = ''dc_servo'',
        description = ''K-Cube DC Servo Motor Driver'',
        apt_hw_type = Some 42, supports_homing = True, supports_position = True\<rparr>),
     (''KBD101'', \<lparr>prefix = 28, channels = 1, motor_type = ''brushless'',
        description = ''K-Cube Brushless DC Motor Driver'',
        apt_hw_type = None, supports_homing = True, supports_position = True\<rparr>),
     (''TDC001'', \<lparr>prefix = 83, channels = 1, motor_type = ''dc_servo'',
        description = ''T-Cube DC Servo Motor Driver (Legacy)'',
        apt_hw_type = Some 27, supports_homing = True, supports_position = True\<rparr>),
     (''KIM101'', \<lparr>prefix = 97, channels = 4, motor_type = ''inertial'',
        description = ''K-Cube Inertial Motor Driver (4-channel)'',
        apt_hw_type = None, supports_homing = False, supports_position = False\<rparr>),
     (''KPZ101'', \<lparr>prefix = 29, channels = 1, motor_type = ''piezo'',
        description = ''K-Cube Piezo Driver'',
        apt_hw_type = Some 29, supports_homing = False, supports_position = True\<rparr>),
     (''TPZ001'', \<lparr>prefix = 81, channels = 1, motor_type = ''piezo'',
        description = ''T-Cube Piezo Driver (Legacy)'',
        apt_hw_type = Some 81, supports_homing = False, supports_position = True\<rparr>)]"

text \<open>
  \<open>_PREFIX_TO_CONTROLLER\<close>: the dict comprehension over \<open>CONTROLLERS.items()\<close>. A later
  item would overwrite an earlier one with the same prefix, so the lookup reads the
  reversed list.
\<close>

definition PREFIX_TO_CONTROLLER :: "(int \<times> string) list" where
  "PREFIX_TO_CONTROLLER = rev (map (\<lambda>(name, info). (prefix info, name)) CONTROLLERS)"

text \<open>The prefix extraction \<open>int(str(serial_number)[:2])\<close>.\<close>

definition serial_prefix :: "int \<Rightarrow> py_error + int" where
  "serial_prefix serial_number = py_int (take 2 (py_str serial_number))"

text \<open>
  \<open>get_controller_type\<close>: \<open>Inr None\<close> is Python's \<open>None\<close>, the value the function
  documents for an unknown type.
\<close>

definition get_controller_type :: "int \<Rightarrow> py_error + string option" where
  "get_controller_type serial_number =
     (case serial_prefix serial_number of
        Inl e \<Rightarrow> Inl e
      | Inr p \<Rightarrow> Inr (map_of PREFIX_TO_CONTROLLER p))"



definition get_channel_count :: "string \<Rightarrow> nat" where
  "get_channel_count controller_type =
     (case map_of CONTROLLERS controller_type of None \<Rightarrow> 1 | Some info \<Rightarrow> channels info)"


section \<open>Stage database (stages.py)\<close>

text \<open>
  One entry of \<open>STAGES\<close>, with the keys that the modelled operations read. Python
  floats are modelled as exact rationals; \<open>None\<close> is a missing key or a \<open>None\<close> value.
\<close>

record stage_info =
  compatible_controllers :: "string list"
  units :: string
  travel :: "rat option"
  step_size :: "rat option"

definition STAGES :: "(string \<times> stage_info) list" where
  "STAGES =
    [(''PRM1Z8'', \<lparr>compatible_controllers = [''KDC101'', ''TDC001''], units = ''deg'',
        travel = Some 360, step_size = None\<rparr>),
     (''PRM1/MZ8'', \<lparr>compatible_controllers = [''KDC101'', ''TDC001''], units = ''deg'',
        travel = Some 360, step_size = None\<rparr>),
     (''HDR50'', \<lparr>compatible_controllers = [''KDC101'', ''TDC001''], units = ''deg'',
        travel = Some 360, step_size = None\<rparr>),
     (''K10CR1'', \<lparr>compatible_controllers = [''KDC101'', ''TDC001''], units = ''deg'',
        travel = Some 360, step_size = None\<rparr>),
     (''DDR25'', \<lparr>compatible_controllers = [''KDC101'', ''TDC001''], units = ''deg'',
        travel = Some 360, step_size = None\<rparr>),
     (''DDR100'', \<lparr>compatible_controllers = [''KDC101'', ''TDC001''], units = ''deg'',
        travel = Some 360, step_size = None\<rparr>),
     (''Z825B'', \<lparr>compatible_controllers = [''KDC101'', ''TDC001''], units = ''mm'',
        travel = Some 25, step_size = None\<rparr>),
     (''Z812B'', \<lparr>compatible_controllers = [''KDC101'', ''TDC001''], units = ''mm'',
        travel = Some 12, step_size = None\<rparr>),
     (''Z612B'', \<lparr>compatible_controllers = [''KDC101'', ''TDC001''], units = ''mm'',
        travel = Some 6, step_size = None\<rparr>),
     (''MTS25-Z8'', \<lparr>compatible_controllers = [''KDC101'', ''TDC001''], units = ''mm'',
        travel = Some 25, step_size = None\<rparr>),
     (''MTS50-Z8'', \<lparr>compatible_controllers = [''KDC101'', ''TDC001''], units = ''mm'',
        travel = Some 50, step_size = None\<rparr>),
     (''LTS150'', \<lparr>compatible_controllers = [''KDC101'', ''TDC001''], units = ''mm'',
        travel = Some 150, step_size = None\<rparr>),
     (''LTS300'', \<lparr>compatible_controllers = [''KDC101'', ''TDC001''], units = ''mm'',
        travel = Some 300, step_size = None\<rparr>),
     (''PT1-Z8'', \<lparr>compatible_controllers = [''KDC101'', ''TDC001''], units = ''mm'',
        travel = Some 25, step_size = None\<rparr>),
     (''DDS100'', \<lparr>compatible_controllers = [''KBD101''], units = ''mm'',
        travel = Some 100, step_size = None\<rparr>),
     (''DDSM100'', \<lparr>compatible_controllers = [''KBD101''], units = ''mm'',
        travel = Some 100, step_size = None\<rparr>),
     (''DDS220'', \<lparr>compatible_controllers = [''KBD101''], units = ''mm'',
        travel = Some 220, step_size = None\<rparr>),
     (''DDS300'', \<lparr>compatible_controllers = [''KBD101''], units = ''mm'',
        travel = Some 300, step_size = None\<rparr>),
     (''DDS600'', \<lparr>compatible_controllers = [''KBD101''], units = ''mm'',
        travel = Some 600, step_size = None\<rparr>),
     (''PIA13'', \<lparr>compatible_controllers = [''KIM101''], units = ''mm'',
        travel = Some 13, step_size = Some (1 / 50000)\<rparr>),
     (''PIA25'', \<lparr>compatible_controllers = [''KIM101''], units = ''mm'',
        travel = Some 25, step_size = Some (1 / 50000)\<rparr>),
     (''PIA50'', \<lparr>compatible_controllers = [''KIM101''], units = ''mm'',
        travel = Some 50, step_size = Some (1 / 50000)\<rparr>),
     (''PIAK10'', \<lparr>compatible_controllers = [''KIM101''], units = ''steps'',
        travel = None, step_size = Some (1 / 50000)\<rparr>),
     (''PIAK25'', \<lparr>compatible_controllers = [''KIM101''], units = ''steps'',
        travel = None, step_size = Some (1 / 50000)\<rparr>),
     (''PK4FA7P1'', \<lparr>compatible_controllers = [''KPZ101'', ''TPZ001''], units = ''mm'',
        travel = Some (7 / 1000), step_size = None\<rparr>),
     (''PAZ005'', \<lparr>compatible_controllers = [''KPZ101'', ''TPZ001''], units = ''mm'',
        travel = Some (1 / 200), step_size = None\<rparr>),
     (''PAZ015'', \<lparr>compatible_controllers = [''KPZ101'', ''TPZ001''], units = ''mm'',
        travel = Some (3 / 200), step_size = None\<rparr>),
     (''POLARIS-K1PZ'', \<lparr>compatible_controllers = [''KPZ101'', ''TPZ001''], units = ''V'',
        travel = None, step_size = None\<rparr>)]"

definition get_stage_info :: "string \<Rightarrow> stage_info option" where
  "get_stage_info stage_name = map_of STAGES stage_name"

definition get_compatible_stages :: "string \<Rightarrow> string list" where
  "get_compatible_stages controller_type =
     map fst (filter (\<lambda>(name, info). controller_type \<in> set (compatible_controllers info)) STAGES)"


section \<open>Stage compatibility (device_manager.py)\<close>

text \<open>\<open>sep.join(parts)\<close> on a list of texts.\<close>

fun py_join :: "string \<Rightarrow> string list \<Rightarrow> string" where
  "py_join sep [] = []"
| "py_join sep [x] = x"
| "py_join sep (x # y # ys) = x @ sep @ py_join sep (y # ys)"

text \<open>
  \<open>validate_stage_compatibility(stage_name, controller_type)\<close> returns the pair
  \<open>(is_valid, message)\<close>; the three f-strings are spelled out.
\<close>

definition validate_stage_compatibility :: "string \<Rightarrow> string \<Rightarrow> bool \<times> string" where
  "validate_stage_compatibility stage_name controller_type =
     (case get_stage_info stage_name of
        None \<Rightarrow> (False, ''Unknown stage: '' @ stage_name)
      | Some stage_info \<Rightarrow>
          let compatible = compatible_controllers stage_info in
          if controller_type \<in> set compatible then
            (True, stage_name @ '' is compatible with '' @ controller_type)
          else
            let compatible_str = py_join '' or '' compatible in
            (False, stage_name @ '' requires '' @ compatible_str
                      @ '', but controller is '' @ controller_type))"


section \<open>Configuration store (device_manager.py)\<close>

text \<open>
  The configuration document. A dict is a map; \<open>None\<close> for \<open>channels\<close> or
  \<open>controllers\<close> means that the key is absent, and \<open>None\<close> for a field of a channel
  entry means that the key is absent or holds \<open>null\<close> (the code reads all of them
  with \<open>.get\<close>, which does not tell the two apart).
\<close>

record channel_entry =
  stage :: "string option"
  role :: "string option"
  linked_group :: "string option"

record device_entry =
  channels :: "(string \<rightharpoonup> channel_entry) option"

record full_config =
  version :: "string option"
  controllers :: "(string \<rightharpoonup> device_entry) option"

text \<open>
  The standard library's \<open>json.load\<close> and \<open>json.dump(config, f, indent=4)\<close> are not
  code of this repository; they are parameters. \<open>json_loads text = None\<close> is a
  \<open>JSONDecodeError\<close>.
\<close>

record json_lib =
  json_loads :: "string \<Rightarrow> full_config option"
  json_dumps :: "full_config \<Rightarrow> string"

text \<open>
  The file \<open>devices.json\<close>: \<open>None\<close> when it does not exist, otherwise its text.
\<close>

type_synonym config_file = "string option"

definition default_config :: full_config where
  "default_config = \<lparr>version = Some ''1.0'', controllers = Some Map.empty\<rparr>"

definition load_device_config :: "json_lib \<Rightarrow> config_file \<Rightarrow> full_config" where
  "load_device_config J file =
     (case file of
        None \<Rightarrow> default_config
      | Some text \<Rightarrow>
          (case json_loads J text of
             None \<Rightarrow> default_config
           | Some config \<Rightarrow> config))"

text \<open>
  What can go wrong while saving: creating the directory fails, opening the file
  fails, or the write fails with an \<open>IOError\<close> after some characters have reached the
  file.
\<close>

datatype io_fault = NoFault | MkdirFails | OpenFails | WriteFails nat

text \<open>
  \<open>save_device_config\<close>: \<open>open(DEVICES_JSON, "w")\<close> truncates the file in place, then
  \<open>json.dump\<close> writes the document into it. The result is the returned flag and the
  file afterwards.
\<close>

definition save_device_config ::
    "json_lib \<Rightarrow> io_fault \<Rightarrow> config_file \<Rightarrow> full_config \<Rightarrow> bool \<times> config_file" where
  "save_device_config J fault file config =
     (case fault of
        MkdirFails \<Rightarrow> (False, file)
      | OpenFails \<Rightarrow> (False, file)
      | WriteFails n \<Rightarrow> (False, Some (take n (json_dumps J config)))
      | NoFault \<Rightarrow> (True, Some (json_dumps J config)))"



section \<open>Backend selection and controller factory (device_manager.py)\<close>










section \<open>Stage auto-detection (gui.py)\<close>







text \<open>
  What the Kinesis handle answers to the queries of the detection: \<open>GetDeviceInfo()\<close>
  raises, returns \<open>None\<close>, or returns an object whose \<open>Notes\<close> and \<open>Name\<close> read as the
  given texts; \<open>MotorDeviceSettings.DeviceSettingsName\<close> reads as a text. A text that
  is missing, falsy or whose read raises (each read has its own \<open>except\<close>) is \<open>''''\<close>.
\<close>

datatype device_info_result = InfoRaises | InfoNone | Info string string

record kinesis_report =
  GetDeviceInfo :: device_info_result
  DeviceSettingsName :: string

text \<open>
  The part of \<open>device.controller\<close> that the detection reads: its channel and its
  \<open>_device\<close> attribute (\<open>None\<close>: the class has no such attribute; \<open>Some None\<close>: the
  attribute is \<open>None\<close>).
\<close>

record gui_controller =
  controller_channel :: int
  controller_device :: "kinesis_report option option"

text \<open>\<open>DeviceInfo\<close> of gui.py; \<open>config\<close> is the device's entry of the document.\<close>

record DeviceInfo =
  serial :: int
  controller_type :: string
  device_channels :: nat
  config :: "device_entry option"
  controller :: "gui_controller option"






section \<open>Controller classes (base.py, kinesis/kdc101.py, kinesis/kim101.py)\<close>

text \<open>
  A state-change callback is called with the new state and either returns (\<open>None\<close>)
  or raises an exception (\<open>Some e\<close>). It is assumed not to call back into the
  controller.
\<close>

type_synonym observer = "ControllerState \<Rightarrow> py_error option"

text \<open>
  The attributes set by \<open>MotorController.__init__\<close>. The position callback is never
  called by the modelled methods and is left out.
\<close>

record MotorController =
  serial_number :: int
  channel :: int
  state :: ControllerState
  stage_config :: "stage_info option"
  on_state_change :: "observer option"

text \<open>
  \<open>_set_state\<close>: the assignment happens first, then the callback runs; the result is
  the exception that escaped the callback (if any) and the object afterwards.
\<close>

definition set_state ::
    "ControllerState \<Rightarrow> 'a MotorController_scheme
       \<Rightarrow> py_error option \<times> 'a MotorController_scheme" where
  "set_state new_state self =
     (case on_state_change self of
        None \<Rightarrow> (None, self\<lparr>state := new_state\<rparr>)
      | Some callback \<Rightarrow> (callback new_state, self\<lparr>state := new_state\<rparr>))"

text \<open>
  Calls into the vendor runtime. A Kinesis device handle is modelled by what it
  answers: which calls throw, and what \<open>Status.IsMoving\<close> reads at a given clock time
  (seconds). Python floats are exact rationals in the model.
\<close>

datatype MotorDirection = Forward | Backward

datatype InertialMotorJogDirection = Increase | Decrease

datatype backend_call =
    StopPolling
  | Disconnect
  | MoveRelative MotorDirection rat int
  | Jog int InertialMotorJogDirection
  | Stop int

record kinesis_device =
  throws :: "backend_call \<Rightarrow> bool"
  IsMoving :: "rat \<Rightarrow> bool"

text \<open>\<open>int(x)\<close> on a float truncates towards zero.\<close>

definition py_trunc :: "rat \<Rightarrow> int" where
  "py_trunc x = (if 0 \<le> x then \<lfloor>x\<rfloor> else \<lceil>x\<rceil>)"

text \<open>
  The polling loop of the blocking moves:
  \<^verbatim>\<open>while self._device.Status.IsMoving:
      if time.time() - start > timeout: raise MovementError("Move timeout")
      time.sleep(0.1)\<close>
  The clock advances by the sleep of each round. The result tells whether the loop
  ended because the motion finished (\<open>True\<close>) or by the timeout (\<open>False\<close>).
\<close>

function wait_while_moving :: "(rat \<Rightarrow> bool) \<Rightarrow> rat \<Rightarrow> rat \<Rightarrow> rat \<Rightarrow> bool" where
  "wait_while_moving moving start timeout now =
     (if moving now then
        (if now - start > timeout then False
         else wait_while_moving moving start timeout (now + 1 / 10))
      else True)"
  by pat_completeness auto
termination
proof (relation "measure (\<lambda>(moving, start, timeout, now). nat (\<lfloor>(start + timeout - now) * 10\<rfloor> + 1))")
  show "wf (measure (\<lambda>(moving, start, timeout, now). nat (\<lfloor>(start + timeout - now) * 10\<rfloor> + 1)))"
    by simp
next
  fix moving :: "rat \<Rightarrow> bool" and start timeout now :: rat
  assume "moving now" and "\<not> timeout < now - start"
  then have nonneg: "0 \<le> (start + timeout - now) * 10" by simp
  define x where "x = (start + timeout - now) * 10"
  have "(start + timeout - (now + 1 / 10)) * 10 = x - 1"
    by (simp add: x_def algebra_simps)
  then have "\<lfloor>(start + timeout - (now + 1 / 10)) * 10\<rfloor> = \<lfloor>x - 1\<rfloor>"
    by (simp only:)
  then have step: "\<lfloor>(start + timeout - (now + 1 / 10)) * 10\<rfloor> = \<lfloor>x\<rfloor> - 1"
    by simp
  from nonneg have "0 \<le> \<lfloor>x\<rfloor>" by (simp add: x_def)
  then have less: "nat (\<lfloor>x\<rfloor> - 1 + 1) < nat (\<lfloor>x\<rfloor> + 1)" by simp
  show "((moving, start, timeout, now + 1 / 10), (moving, start, timeout, now))
      \<in> measure (\<lambda>(moving, start, timeout, now). nat (\<lfloor>(start + timeout - now) * 10\<rfloor> + 1))"
    by (simp only: in_measure prod.case step x_def [symmetric] less)
qed

declare wait_while_moving.simps [simp del]


subsection \<open>KDC101Controller\<close>

record KDC101Controller = MotorController +
  device :: "kinesis_device option"
  is_initialized :: bool

text \<open>
  Every method returns the value or exception, the object afterwards and the
  backend calls it issued, in order.
\<close>

type_synonym 'r kdc_result = "(py_error + 'r) \<times> KDC101Controller \<times> backend_call list"

text \<open>
  \<open>KDC101Controller.disconnect\<close>: the teardown calls are inside \<open>try ... except
  Exception: pass\<close>; \<open>_set_state\<close> is outside.
\<close>

definition KDC101_disconnect :: "KDC101Controller \<Rightarrow> unit kdc_result" where
  "KDC101_disconnect self =
     (let (calls, self1) =
            (case device self of
               None \<Rightarrow> ([], self)
             | Some dev \<Rightarrow>
                 ((if throws dev StopPolling then [StopPolling] else [StopPolling, Disconnect]),
                  self\<lparr>device := None\<rparr>));
          (raised, self2) = set_state DISCONNECTED self1
      in (case raised of None \<Rightarrow> Inr () | Some e \<Rightarrow> Inl e, self2, calls))"

text \<open>\<open>n\<close> consecutive calls of \<open>disconnect()\<close>, each outcome recorded.\<close>

fun KDC101_disconnect_times ::
    "nat \<Rightarrow> KDC101Controller \<Rightarrow> (py_error + unit) list \<times> KDC101Controller" where
  "KDC101_disconnect_times 0 self = ([], self)"
| "KDC101_disconnect_times (Suc n) self =
     (let (r, self1, calls) = KDC101_disconnect self;
          (rs, self2) = KDC101_disconnect_times n self1
      in (r # rs, self2))"

text \<open>
  The \<open>except Exception\<close> handler shared by the motion methods of \<open>KDC101Controller\<close>:
  \<open>self._set_state(ControllerState.ERROR)\<close>, then \<open>raise MovementError(...)\<close>.
\<close>

definition KDC101_movement_failed ::
    "KDC101Controller \<Rightarrow> backend_call list \<Rightarrow> bool kdc_result" where
  "KDC101_movement_failed self calls =
     (let (raised, self1) = set_state ERROR self
      in (case raised of None \<Rightarrow> Inl MovementError | Some e \<Rightarrow> Inl e, self1, calls))"

text \<open>
  \<open>KDC101Controller.move_relative(distance, wait, timeout)\<close>; \<open>now\<close> is the clock
  reading taken by \<open>start = time.time()\<close>.
\<close>

definition KDC101_move_relative ::
    "KDC101Controller \<Rightarrow> rat \<Rightarrow> rat \<Rightarrow> bool \<Rightarrow> rat \<Rightarrow> bool kdc_result" where
  "KDC101_move_relative self now distance wait timeout =
     (case device self of
        None \<Rightarrow> (Inr False, self, [])
      | Some dev \<Rightarrow>
          (let (raised, self1) = set_state MOVING self in
           case raised of
             Some e \<Rightarrow> KDC101_movement_failed self1 []
           | None \<Rightarrow>
               let direction = (if distance > 0 then Forward else Backward);
                   call = MoveRelative direction \<bar>distance\<bar>
                            (if wait then py_trunc (timeout * 1000) else 0)
               in if throws dev call then KDC101_movement_failed self1 [call]
                  else if wait \<and> \<not> wait_while_moving (IsMoving dev) now timeout now
                  then KDC101_movement_failed self1 [call]
                  else
                    (let (raised2, self2) = set_state CONNECTED self1 in
                     case raised2 of
                       Some e \<Rightarrow> KDC101_movement_failed self2 [call]
                     | None \<Rightarrow> (Inr True, self2, [call]))))"


subsection \<open>InertialController and KIM101Controller\<close>

record InertialController = MotorController +
  step_count :: int

record KIM101Controller = InertialController +
  kim_device :: "kinesis_device option"
  kim_is_initialized :: bool

type_synonym 'r kim_result = "(py_error + 'r) \<times> KIM101Controller \<times> backend_call list"

text \<open>
  \<open>InertialController.home\<close>, which \<open>KIM101Controller\<close> inherits unchanged: the body is
  \<open>return False\<close>.
\<close>

definition InertialController_home ::
    "'a InertialController_scheme \<Rightarrow> bool \<Rightarrow> rat
       \<Rightarrow> (py_error + bool) \<times> 'a InertialController_scheme \<times> backend_call list" where
  "InertialController_home self wait timeout = (Inr False, self, [])"

text \<open>
  \<open>_get_channel_enum\<close> looks the channel up in a dict with the keys 1..4; a missing
  key is a \<open>KeyError\<close>, caught like every other exception by the caller's \<open>except\<close>.
\<close>

definition get_channel_enum :: "KIM101Controller \<Rightarrow> int option" where
  "get_channel_enum self = (if channel self \<in> set [1, 2, 3, 4] then Some (channel self) else None)"

text \<open>
  \<open>KIM101Controller.jog(self, direction)\<close>: one jog of the step count configured in
  the device; any exception is printed and turned into \<open>False\<close>.
\<close>

definition KIM101_jog :: "KIM101Controller \<Rightarrow> int \<Rightarrow> bool kim_result" where
  "KIM101_jog self direction =
     (case kim_device self of
        None \<Rightarrow> (Inr False, self, [])
      | Some dev \<Rightarrow>
          (case get_channel_enum self of
             None \<Rightarrow> (Inr False, self, [])
           | Some channel_enum \<Rightarrow>
               let jog_dir = (if direction > 0 then Increase else Decrease);
                   call = Jog channel_enum jog_dir
               in if throws dev call then (Inr False, self, [call])
                  else (Inr True, self, [call])))"

text \<open>
  A call \<open>self.jog(*args)\<close> on a \<open>KIM101Controller\<close> with positional arguments: the
  method has one parameter besides \<open>self\<close>, so any other number of arguments is a
  \<open>TypeError\<close> raised before the body runs.
\<close>

definition KIM101_call_jog :: "KIM101Controller \<Rightarrow> int list \<Rightarrow> bool kim_result" where
  "KIM101_call_jog self args =
     (case args of
        [direction] \<Rightarrow> KIM101_jog self direction
      | _ \<Rightarrow> (Inl TypeError, self, []))"

text \<open>
  \<open>InertialController.move_relative\<close>. \<open>call_jog\<close> is the method that \<open>self.jog\<close>
  resolves to in the object's class; it receives the positional arguments
  \<open>(direction, steps)\<close>.
\<close>

definition InertialController_move_relative ::
    "('a InertialController_scheme \<Rightarrow> int list
        \<Rightarrow> (py_error + bool) \<times> 'a InertialController_scheme \<times> backend_call list)
     \<Rightarrow> 'a InertialController_scheme \<Rightarrow> rat \<Rightarrow> bool \<Rightarrow> rat
     \<Rightarrow> (py_error + bool) \<times> 'a InertialController_scheme \<times> backend_call list" where
  "InertialController_move_relative call_jog self distance wait timeout =
     (let step_size =
            (case stage_config self of
               Some cfg \<Rightarrow> (case step_size cfg of Some s \<Rightarrow> s | None \<Rightarrow> 1 / 50000)
             | None \<Rightarrow> 1 / 50000)
      in if step_size = 0 then (Inl ZeroDivisionError, self, [])
         else
           let steps = py_trunc (\<bar>distance\<bar> / step_size);
               direction = (if distance > 0 then 1 else - 1)
           in call_jog self [direction, steps])"

definition KIM101_move_relative :: "KIM101Controller \<Rightarrow> rat \<Rightarrow> bool \<Rightarrow> rat \<Rightarrow> bool kim_result" where
  "KIM101_move_relative self distance wait timeout =
     InertialController_move_relative KIM101_call_jog self distance wait timeout"

definition KIM101_home :: "KIM101Controller \<Rightarrow> bool \<Rightarrow> rat \<Rightarrow> bool kim_result" where
  "KIM101_home self wait timeout = InertialController_home self wait timeout"

text \<open>\<open>KIM101Controller.jog_continuous\<close>: the same backend call as \<open>jog\<close>.\<close>

definition KIM101_jog_continuous :: "KIM101Controller \<Rightarrow> int \<Rightarrow> bool kim_result" where
  "KIM101_jog_continuous self direction =
     (case kim_device self of
        None \<Rightarrow> (Inr False, self, [])
      | Some dev \<Rightarrow>
          (case get_channel_enum self of
             None \<Rightarrow> (Inr False, self, [])
           | Some channel_enum \<Rightarrow>
               let jog_dir = (if direction > 0 then Increase else Decrease);
                   call = Jog channel_enum jog_dir
               in if throws dev call then (Inr False, self, [call])
                  else (Inr True, self, [call])))"

text \<open>
  \<open>KIM101Controller.stop\<close>: the backend call is guarded by \<open>try ... except\<close>,
  \<open>_set_state(CONNECTED)\<close> is not.
\<close>

definition KIM101_stop :: "KIM101Controller \<Rightarrow> unit kim_result" where
  "KIM101_stop self =
     (case kim_device self of
        None \<Rightarrow> (Inr (), self, [])
      | Some dev \<Rightarrow>
          (let calls = (case get_channel_enum self of
                          None \<Rightarrow> []
                        | Some channel_enum \<Rightarrow> [Stop channel_enum]);
               (raised, self1) = set_state CONNECTED self
           in (case raised of None \<Rightarrow> Inr () | Some e \<Rightarrow> Inl e, self1, calls)))"

text \<open>
  The waiting loop of \<open>move_to_limit\<close>,
  \<^verbatim>\<open>while time.time() - start < timeout: time.sleep(0.1)\<close>,
  returns the clock reading at which it ends.
\<close>

function wait_for_timeout :: "rat \<Rightarrow> rat \<Rightarrow> rat \<Rightarrow> rat" where
  "wait_for_timeout start timeout now =
     (if now - start < timeout then wait_for_timeout start timeout (now + 1 / 10) else now)"
  by pat_completeness auto
termination
proof (relation "measure (\<lambda>(start, timeout, now). nat (\<lceil>(start + timeout - now) * 10\<rceil>))")
  show "wf (measure (\<lambda>(start, timeout, now). nat (\<lceil>(start + timeout - now) * 10\<rceil>)))"
    by simp
next
  fix start timeout now :: rat
  assume "now - start < timeout"
  then have pos: "0 < (start + timeout - now) * 10" by simp
  define x where "x = (start + timeout - now) * 10"
  have "(start + timeout - (now + 1 / 10)) * 10 = x - 1"
    by (simp add: x_def algebra_simps)
  then have "\<lceil>(start + timeout - (now + 1 / 10)) * 10\<rceil> = \<lceil>x - 1\<rceil>"
    by (simp only:)
  then have step: "\<lceil>(start + timeout - (now + 1 / 10)) * 10\<rceil> = \<lceil>x\<rceil> - 1"
    by simp
  from pos have "0 < \<lceil>x\<rceil>" by (simp add: x_def)
  then have less: "nat (\<lceil>x\<rceil> - 1) < nat \<lceil>x\<rceil>" by simp
  show "((start, timeout, now + 1 / 10), (start, timeout, now))
      \<in> measure (\<lambda>(start, timeout, now). nat (\<lceil>(start + timeout - now) * 10\<rceil>))"
    by (simp only: in_measure prod.case step x_def [symmetric] less)
qed

declare wait_for_timeout.simps [simp del]

text \<open>
  The \<open>except Exception\<close> handler of \<open>move_to_limit\<close>: \<open>self.stop()\<close>,
  \<open>self._set_state(ControllerState.ERROR)\<close>, \<open>raise MovementError(...)\<close>.
\<close>

definition KIM101_limit_failed :: "KIM101Controller \<Rightarrow> backend_call list \<Rightarrow> bool kim_result" where
  "KIM101_limit_failed self calls =
     (case KIM101_stop self of
        (Inl e, self1, calls1) \<Rightarrow> (Inl e, self1, calls @ calls1)
      | (Inr u, self1, calls1) \<Rightarrow>
          (let (raised, self2) = set_state ERROR self1
           in (case raised of None \<Rightarrow> Inl MovementError | Some e \<Rightarrow> Inl e,
               self2, calls @ calls1)))"

text \<open>
  \<open>KIM101Controller.move_to_limit(direction, timeout)\<close>: starts a continuous jog,
  waits for the whole timeout, stops, and resets the step counter.
\<close>

definition KIM101_move_to_limit :: "KIM101Controller \<Rightarrow> rat \<Rightarrow> int \<Rightarrow> rat \<Rightarrow> bool kim_result" where
  "KIM101_move_to_limit self now direction timeout =
     (case kim_device self of
        None \<Rightarrow> (Inr False, self, [])
      | Some dev \<Rightarrow>
          (let (raised, self1) = set_state MOVING self in
           case raised of
             Some e \<Rightarrow> KIM101_limit_failed self1 []
           | None \<Rightarrow>
               (case KIM101_jog_continuous self1 direction of
                  (started, self2, calls1) \<Rightarrow>
                    (let finished = wait_for_timeout now timeout now in
                     case KIM101_stop self2 of
                       (Inl e, self3, calls2) \<Rightarrow> KIM101_limit_failed self3 (calls1 @ calls2)
                     | (Inr u, self3, calls2) \<Rightarrow>
                         (let (raised2, self4) = set_state CONNECTED self3 in
                          case raised2 of
                            Some e \<Rightarrow> KIM101_limit_failed self4 (calls1 @ calls2)
                          | None \<Rightarrow>
                              (Inr True, self4\<lparr>step_count := 0\<rparr>, calls1 @ calls2))))))"


subsection \<open>Constructors and configuration of the controller objects\<close>

text \<open>\<open>KDC101Controller.__init__\<close>, which runs \<open>MotorController.__init__\<close> first.\<close>

definition KDC101Controller_init :: "int \<Rightarrow> int \<Rightarrow> KDC101Controller" where
  "KDC101Controller_init sn ch =
     \<lparr>serial_number = sn, channel = ch, state = DISCONNECTED, stage_config = None,
      on_state_change = None, device = None, is_initialized = False\<rparr>"

text \<open>
  \<open>KIM101Controller.__init__\<close>: the attributes of \<open>InertialController.__init__\<close>, the
  handle, then the channel check.
\<close>

definition KIM101Controller_init :: "int \<Rightarrow> int \<Rightarrow> py_error + KIM101Controller" where
  "KIM101Controller_init sn ch =
     (if ch \<in> set [1, 2, 3, 4] then
        Inr \<lparr>serial_number = sn, channel = ch, state = DISCONNECTED, stage_config = None,
             on_state_change = None, step_count = 0, kim_device = None,
             kim_is_initialized = False\<rparr>
      else Inl ValueError)"

text \<open>\<open>MotorController.configure_stage\<close> and \<open>MotorController.set_callbacks\<close>.\<close>

definition configure_stage ::
    "stage_info \<Rightarrow> 'a MotorController_scheme \<Rightarrow> 'a MotorController_scheme" where
  "configure_stage cfg self = self\<lparr>stage_config := Some cfg\<rparr>"

definition set_callbacks ::
    "observer option \<Rightarrow> 'a MotorController_scheme \<Rightarrow> 'a MotorController_scheme" where
  "set_callbacks callback self = self\<lparr>on_state_change := callback\<rparr>"


subsection \<open>Auxiliary notions for the statements\<close>


text \<open>
  A state-change callback that returns normally on every state, or no callback.
\<close>

definition observer_returns :: "'a MotorController_scheme \<Rightarrow> bool" where
  "observer_returns self =
     (case on_state_change self of None \<Rightarrow> True | Some callback \<Rightarrow> \<forall>st. callback st = None)"

text \<open>
  The state-change callback (if any) returns normally when called with the given
  state.
\<close>

definition observer_accepts :: "'a MotorController_scheme \<Rightarrow> ControllerState \<Rightarrow> bool" where
  "observer_accepts self st =
     (case on_state_change self of None \<Rightarrow> True | Some callback \<Rightarrow> callback st = None)"

text \<open>
  A JSON library restricted to one document: the empty dict, whose text under
  \<open>json.dump(..., indent=4)\<close> is \<open>{}\<close>. It is used for concrete instances only;
  every other text is reported as undecodable, which is what \<open>json.load\<close> does on
  the empty text and on \<open>{\<close>.
\<close>

definition empty_dict_json :: json_lib where
  "empty_dict_json =
     \<lparr>json_loads = (\<lambda>text. if text = ''{}'' then Some \<lparr>version = None, controllers = None\<rparr>
                            else None),
      json_dumps = (\<lambda>config. ''{}'')\<rparr>"


text \<open>
  A \<open>KIM101Controller\<close> on channel 1 after a successful \<open>connect()\<close>, configured with
  the stage \<open>PIA13\<close>, on a handle whose calls all succeed; for concrete instances.
\<close>

definition connected_KIM101 :: KIM101Controller where
  "connected_KIM101 =
     \<lparr>serial_number = 97000001, channel = 1, state = CONNECTED,
      stage_config = get_stage_info ''PIA13'', on_state_change = None, step_count = 0,
      kim_device = Some \<lparr>throws = (\<lambda>call. False), IsMoving = (\<lambda>t. False)\<rparr>,
      kim_is_initialized = True\<rparr>"

text \<open>
  A \<open>KDC101Controller\<close> after a successful \<open>connect()\<close> on the given handle; for
  concrete instances.
\<close>

definition connected_KDC101 :: "kinesis_device \<Rightarrow> KDC101Controller" where
  "connected_KDC101 dev =
     (KDC101Controller_init 27123456 1)
       \<lparr>state := CONNECTED, device := Some dev, is_initialized := True\<rparr>"


section \<open>Properties of the registry\<close>

lemma str_nat_numeral:
  "str_nat (numeral k) =
     (if (numeral k :: nat) < 10 then [digit_char (numeral k)]
      else str_nat (numeral k div 10) @ [digit_char (numeral k mod 10)])"
  by (rule str_nat.simps)

lemma str_nat_0: "str_nat 0 = ''0''"
  by (subst str_nat.simps) (simp add: digit_char_def)

lemma str_nat_1: "str_nat (Suc 0) = ''1''"
  by (subst str_nat.simps) (simp add: digit_char_def)

lemmas py_eval = str_nat_numeral str_nat_0 str_nat_1 py_str_def digit_char_def digit_val_def
  py_int_def serial_prefix_def get_controller_type_def PREFIX_TO_CONTROLLER_def CONTROLLERS_def

lemma digit_cases:
  "d < 10 \<Longrightarrow> d = 0 \<or> d = 1 \<or> d = 2 \<or> d = 3 \<or> d = 4 \<or> d = 5 \<or> d = 6
    \<or> d = 7 \<or> d = 8 \<or> d = (9::nat)"
  by arith

lemma digit_val_digit_char: "d < 10 \<Longrightarrow> digit_val (digit_char d) = Some d"
  by (drule digit_cases) (elim disjE, simp_all add: digit_val_def digit_char_def)

lemma digit_char_not_minus: "d < 10 \<Longrightarrow> digit_char d \<noteq> CHR ''-''"
  by (drule digit_cases) (elim disjE, simp_all add: digit_char_def)

lemma str_nat_nonempty: "str_nat n \<noteq> []"
  by (subst str_nat.simps) simp

lemma str_nat_digits: "is_digits (str_nat n)"
proof (induction n rule: str_nat.induct)
  case (1 n)
  show ?case
  proof (cases "n < 10")
    case True
    then show ?thesis by (subst str_nat.simps) (auto simp: is_digits_def)
  next
    case False
    have "\<exists>d<10. digit_char (n mod 10) = digit_char d"
      by (rule exI [of _ "n mod 10"]) simp
    with 1 False show ?thesis
      by (subst str_nat.simps) (auto simp: is_digits_def)
  qed
qed

lemma parse_digits_ok: "is_digits cs \<Longrightarrow> \<exists>m. parse_digits acc cs = Some m"
  by (induction cs arbitrary: acc) (auto simp: is_digits_def digit_val_digit_char)

lemma is_digits_take: "is_digits cs \<Longrightarrow> is_digits (take k cs)"
  by (auto simp: is_digits_def dest: in_set_takeD)

lemma py_int_digits:
  assumes "is_digits cs" and "cs \<noteq> []"
  shows "\<exists>p. py_int cs = Inr p"
proof -
  from assms obtain c rest where cs: "cs = c # rest" by (cases cs) auto
  with assms(1) have "c \<noteq> CHR ''-''" by (auto simp: is_digits_def digit_char_not_minus)
  moreover from parse_digits_ok [OF assms(1)] obtain m where "parse_digits 0 cs = Some m" by blast
  ultimately show ?thesis by (simp add: py_int_def cs)
qed

lemma py_int_minus_digits:
  assumes "is_digits cs" and "cs \<noteq> []"
  shows "\<exists>p. py_int (CHR ''-'' # cs) = Inr p"
proof -
  from parse_digits_ok [OF assms(1)] obtain m where "parse_digits 0 cs = Some m" by blast
  with assms(2) show ?thesis by (simp add: py_int_def)
qed

text \<open>The prefix extraction never raises on an integer serial number.\<close>

lemma serial_prefix_total: "\<exists>p. serial_prefix s = Inr p"
proof (cases "s < 0")
  case True
  have "is_digits (take 1 (str_nat (nat (- s))))"
    by (rule is_digits_take [OF str_nat_digits])
  moreover have "take 1 (str_nat (nat (- s))) \<noteq> []"
    using str_nat_nonempty [of "nat (- s)"] by (cases "str_nat (nat (- s))") auto
  ultimately show ?thesis
    using True py_int_minus_digits by (simp add: serial_prefix_def py_str_def)
next
  case False
  have "is_digits (take 2 (str_nat (nat s)))"
    by (rule is_digits_take [OF str_nat_digits])
  moreover have "take 2 (str_nat (nat s)) \<noteq> []"
    using str_nat_nonempty [of "nat s"] by (cases "str_nat (nat s)") auto
  ultimately show ?thesis
    using False py_int_digits by (simp add: serial_prefix_def py_str_def)
qed

text \<open>
  The extracted prefix is the number formed by the two leading decimal digits: a
  two-digit serial number is its own prefix, and dropping the last digit of a
  longer one does not change the prefix. For an eight-digit serial number this is
  the serial number divided by one million.
\<close>

lemma str_nat_unfold_ge10: "10 \<le> n \<Longrightarrow> str_nat n = str_nat (n div 10) @ [digit_char (n mod 10)]"
  by (subst str_nat.simps) simp

lemma str_nat_lt10: "n < 10 \<Longrightarrow> str_nat n = [digit_char n]"
  by (subst str_nat.simps) simp

lemma length_str_nat_ge2: "10 \<le> n \<Longrightarrow> 2 \<le> length (str_nat n)"
proof -
  assume "10 \<le> n"
  then have "length (str_nat n) = length (str_nat (n div 10)) + 1"
    by (simp add: str_nat_unfold_ge10)
  moreover have "str_nat (n div 10) \<noteq> []" by (rule str_nat_nonempty)
  then have "1 \<le> length (str_nat (n div 10))" by (cases "str_nat (n div 10)") simp_all
  ultimately show ?thesis by simp
qed

lemma take2_str_nat: "100 \<le> n \<Longrightarrow> take 2 (str_nat n) = take 2 (str_nat (n div 10))"
proof -
  assume n: "100 \<le> n"
  then have "10 \<le> n div 10" by simp
  then have "2 \<le> length (str_nat (n div 10))" by (rule length_str_nat_ge2)
  moreover from n have "str_nat n = str_nat (n div 10) @ [digit_char (n mod 10)]"
    by (simp add: str_nat_unfold_ge10)
  ultimately show ?thesis by simp
qed

lemma str_nat_two_digits:
  assumes "10 \<le> n" and "n < 100"
  shows "str_nat n = [digit_char (n div 10), digit_char (n mod 10)]"
proof -
  from assms(2) have "n div 10 < 10" by simp
  then show ?thesis using assms(1) by (simp add: str_nat_unfold_ge10 str_nat_lt10)
qed

lemma serial_prefix_two_digits:
  assumes "10 \<le> s" and "s < 100"
  shows "serial_prefix s = Inr s"
proof -
  define n where "n = nat s"
  from assms have n: "10 \<le> n" "n < 100" and s: "s = int n" by (simp_all add: n_def)
  have a: "n div 10 < 10" and b: "n mod 10 < 10" using n by simp_all
  have "py_int [digit_char (n div 10), digit_char (n mod 10)] = Inr (int n)"
    using a b by (simp add: py_int_def digit_char_not_minus digit_val_digit_char)
  then show ?thesis
    using n by (simp add: serial_prefix_def py_str_def s str_nat_two_digits)
qed

lemma serial_prefix_step:
  assumes "100 \<le> s"
  shows "serial_prefix s = serial_prefix (s div 10)"
proof -
  from assms have "100 \<le> nat s" by simp
  then have "take 2 (str_nat (nat s)) = take 2 (str_nat (nat s div 10))" by (rule take2_str_nat)
  moreover have "nat s div 10 = nat (s div 10)" using assms by (simp add: nat_div_distrib)
  moreover from assms have "\<not> s < 0" "\<not> s div 10 < 0" by simp_all
  ultimately show ?thesis by (simp add: serial_prefix_def py_str_def)
qed

lemma serial_prefix_eight_digits:
  assumes "10000000 \<le> s" and "s < 100000000"
  shows "serial_prefix s = Inr (s div 1000000)"
proof -
  have d: "s div 10 div 10 div 10 div 10 div 10 div 10 = s div 1000000"
    using assms by (simp add: zdiv_zmult2_eq [symmetric])
  have "serial_prefix s = serial_prefix (s div 10)" using assms by (intro serial_prefix_step) simp
  also have "\<dots> = serial_prefix (s div 10 div 10)" using assms by (intro serial_prefix_step) simp
  also have "\<dots> = serial_prefix (s div 10 div 10 div 10)"
    using assms by (intro serial_prefix_step) simp
  also have "\<dots> = serial_prefix (s div 10 div 10 div 10 div 10)"
    using assms by (intro serial_prefix_step) simp
  also have "\<dots> = serial_prefix (s div 10 div 10 div 10 div 10 div 10)"
    using assms by (intro serial_prefix_step) simp
  also have "\<dots> = serial_prefix (s div 10 div 10 div 10 div 10 div 10 div 10)"
    using assms by (intro serial_prefix_step) simp
  also have "\<dots> = serial_prefix (s div 1000000)" by (simp only: d)
  also have "\<dots> = Inr (s div 1000000)" using assms by (intro serial_prefix_two_digits) simp_all
  finally show ?thesis .
qed

lemma map_of_PREFIX_TO_CONTROLLER:
  "map_of PREFIX_TO_CONTROLLER p =
     (if p = 27 then Some ''KDC101'' else if p = 28 then Some ''KBD101''
      else if p = 83 then Some ''TDC001'' else if p = 97 then Some ''KIM101''
      else if p = 29 then Some ''KPZ101'' else if p = 81 then Some ''TPZ001''
      else None)"
  by (simp add: PREFIX_TO_CONTROLLER_def CONTROLLERS_def)

lemma get_controller_type_examples:
  "get_controller_type 27123456 = Inr (Some ''KDC101'')"
  "get_controller_type 97654321 = Inr (Some ''KIM101'')"
  "get_controller_type 28000001 = Inr (Some ''KBD101'')"
  "get_controller_type 12345678 = Inr None"
  by (simp_all add: py_eval)

text \<open>
  Claim C4. The type lookup depends on the serial number only through the first two
  characters of its decimal text: two serial numbers that agree on them resolve to
  the same type. The extraction never raises; the result is the registered type of
  the extracted prefix, and it is \<open>None\<close> (Python's value for an unknown type) when
  no entry of \<open>CONTROLLERS\<close> carries that prefix.
\<close>

theorem get_controller_type_prefix_function:
  "(take 2 (py_str s1) = take 2 (py_str s2) \<longrightarrow>
      get_controller_type s1 = get_controller_type s2)
   \<and> (\<exists>p. serial_prefix s1 = Inr p
        \<and> get_controller_type s1 = Inr (map_of PREFIX_TO_CONTROLLER p)
        \<and> (p \<notin> set (map (\<lambda>(name, info). prefix info) CONTROLLERS)
             \<longrightarrow> get_controller_type s1 = Inr None))"
proof -
  obtain p where p: "serial_prefix s1 = Inr p" using serial_prefix_total by blast
  have "p \<notin> set (map (\<lambda>(name, info). prefix info) CONTROLLERS)
          \<Longrightarrow> map_of PREFIX_TO_CONTROLLER p = None"
    by (simp add: map_of_PREFIX_TO_CONTROLLER CONTROLLERS_def)
  with p show ?thesis
    by (auto simp: get_controller_type_def serial_prefix_def)
qed

theorem get_controller_type_prefix_function_witness:
  "take 2 (py_str 27123456) = take 2 (py_str 27000001)
   \<and> get_controller_type 27123456 = get_controller_type 27000001
   \<and> serial_prefix 12345678 = Inr 12
   \<and> 12 \<notin> set (map (\<lambda>(name, info). prefix info) CONTROLLERS)
   \<and> get_controller_type 12345678 = Inr None"
proof -
  have same: "take 2 (py_str 27123456) = take 2 (py_str 27000001)"
    by (simp add: py_eval)
  have pre: "serial_prefix 12345678 = Inr 12"
    by (simp add: py_eval)
  have unreg: "(12::int) \<notin> set (map (\<lambda>(name, info). prefix info) CONTROLLERS)"
    by (simp add: CONTROLLERS_def)
  from get_controller_type_prefix_function [of 27123456 27000001] same
  have "get_controller_type 27123456 = get_controller_type 27000001" by blast
  moreover from get_controller_type_prefix_function [of 12345678 0] pre unreg
  have "get_controller_type 12345678 = Inr None" by auto
  ultimately show ?thesis using same pre unreg by blast
qed

text \<open>
  Claim C10. The two families disagree on connectivity: a motor controller (and so
  the inertial variant, which inherits the property) is connected exactly in the
  states \<open>CONNECTED\<close>, \<open>HOMING\<close> and \<open>MOVING\<close>; a piezo controller is connected
  exactly when its state is not \<open>DISCONNECTED\<close>. They differ exactly in the states
  \<open>ERROR\<close> and \<open>CONNECTING\<close>, where only the piezo controller reports connected.
\<close>

theorem is_connected_families:
  "MotorController_is_connected st = (st = CONNECTED \<or> st = HOMING \<or> st = MOVING)
   \<and> PiezoController_is_connected st = (st \<noteq> DISCONNECTED)
   \<and> ((MotorController_is_connected st \<noteq> PiezoController_is_connected st)
        = (st = ERROR \<or> st = CONNECTING))
   \<and> (st = ERROR \<or> st = CONNECTING
        \<longrightarrow> \<not> MotorController_is_connected st \<and> PiezoController_is_connected st)"
  by (cases st) (simp_all add: MotorController_is_connected_def PiezoController_is_connected_def)

theorem is_connected_families_witness:
  "\<not> MotorController_is_connected ERROR \<and> PiezoController_is_connected ERROR
   \<and> \<not> MotorController_is_connected CONNECTING \<and> PiezoController_is_connected CONNECTING"
  using is_connected_families [of ERROR] is_connected_families [of CONNECTING] by simp


section \<open>Properties of the stage validator and the controller factory\<close>

lemma py_join_contains: "c \<in> set xs \<Longrightarrow> sublist c (py_join sep xs)"
proof (induction sep xs rule: py_join.induct)
  case (1 sep)
  then show ?case by simp
next
  case (2 sep x)
  then show ?case by simp
next
  case (3 sep x y ys)
  show ?case
  proof (cases "c = x")
    case True
    then show ?thesis by (simp add: sublist_def) (metis append_Nil)
  next
    case False
    with 3 have "sublist c (py_join sep (y # ys))" by simp
    then obtain ps ss where "py_join sep (y # ys) = ps @ c @ ss" by (auto simp: sublist_def)
    then have "py_join sep (x # y # ys) = (x @ sep @ ps) @ c @ ss" by simp
    then show ?thesis unfolding sublist_def by blast
  qed
qed

text \<open>
  Claim C7. For a stage \<open>S\<close> of the database and any controller type \<open>T\<close>, the
  validator's flag is true exactly when \<open>T\<close> is in the stage's list of compatible
  controllers. When it is not, the result is \<open>False\<close> together with the message
  \<open>S requires T1 or T2 ..., but controller is T\<close>, and every compatible controller
  type occurs in that message.
\<close>

theorem validate_stage_compatibility_membership:
  assumes "get_stage_info S = Some info"
  shows "fst (validate_stage_compatibility S T) = (T \<in> set (compatible_controllers info))
    \<and> (T \<notin> set (compatible_controllers info) \<longrightarrow>
          validate_stage_compatibility S T =
            (False, S @ '' requires '' @ py_join '' or '' (compatible_controllers info)
                      @ '', but controller is '' @ T)
          \<and> (\<forall>c \<in> set (compatible_controllers info).
                sublist c (snd (validate_stage_compatibility S T))))"
proof -
  have names: "\<forall>c \<in> set (compatible_controllers info).
      sublist c (S @ '' requires '' @ py_join '' or '' (compatible_controllers info)
                      @ '', but controller is '' @ T)"
  proof
    fix c assume "c \<in> set (compatible_controllers info)"
    then have "sublist c (py_join '' or '' (compatible_controllers info))"
      by (rule py_join_contains)
    then obtain ps ss where "py_join '' or '' (compatible_controllers info) = ps @ c @ ss"
      by (auto simp: sublist_def)
    then have "S @ '' requires '' @ py_join '' or '' (compatible_controllers info)
                      @ '', but controller is '' @ T
        = (S @ '' requires '' @ ps) @ c @ (ss @ '', but controller is '' @ T)"
      by simp
    then show "sublist c (S @ '' requires '' @ py_join '' or '' (compatible_controllers info)
                      @ '', but controller is '' @ T)"
      unfolding sublist_def by blast
  qed
  show ?thesis
  proof (cases "T \<in> set (compatible_controllers info)")
    case True
    with assms show ?thesis by (simp add: validate_stage_compatibility_def)
  next
    case False
    with assms names show ?thesis by (simp add: validate_stage_compatibility_def)
  qed
qed

lemma get_stage_info_PRM1Z8:
  "get_stage_info ''PRM1Z8'' =
     Some \<lparr>compatible_controllers = [''KDC101'', ''TDC001''], units = ''deg'',
           travel = Some 360, step_size = None\<rparr>"
  by (simp add: get_stage_info_def STAGES_def)

theorem validate_stage_compatibility_membership_witness:
  "fst (validate_stage_compatibility ''PRM1Z8'' ''KDC101'')
   \<and> validate_stage_compatibility ''PRM1Z8'' ''KIM101'' =
       (False, ''PRM1Z8 requires KDC101 or TDC001, but controller is KIM101'')
   \<and> sublist ''KDC101'' (snd (validate_stage_compatibility ''PRM1Z8'' ''KIM101''))
   \<and> sublist ''TDC001'' (snd (validate_stage_compatibility ''PRM1Z8'' ''KIM101''))"
proof -
  let ?info = "\<lparr>compatible_controllers = [''KDC101'', ''TDC001''], units = ''deg'',
           travel = Some 360, step_size = None\<rparr>"
  note kdc = validate_stage_compatibility_membership [OF get_stage_info_PRM1Z8, of "''KDC101''"]
  note kim = validate_stage_compatibility_membership [OF get_stage_info_PRM1Z8, of "''KIM101''"]
  have mem: "''KDC101'' \<in> set (compatible_controllers ?info)"
    "''TDC001'' \<in> set (compatible_controllers ?info)"
    and non: "''KIM101'' \<notin> set (compatible_controllers ?info)"
    by simp_all
  from kdc mem(1) have a: "fst (validate_stage_compatibility ''PRM1Z8'' ''KDC101'')"
    by blast
  from kim non have b: "validate_stage_compatibility ''PRM1Z8'' ''KIM101'' =
      (False, ''PRM1Z8'' @ '' requires '' @ py_join '' or '' (compatible_controllers ?info)
                 @ '', but controller is '' @ ''KIM101'')"
    and c: "\<forall>c \<in> set (compatible_controllers ?info).
      sublist c (snd (validate_stage_compatibility ''PRM1Z8'' ''KIM101''))"
    by blast+
  from c mem have d: "sublist ''KDC101'' (snd (validate_stage_compatibility ''PRM1Z8'' ''KIM101''))"
    "sublist ''TDC001'' (snd (validate_stage_compatibility ''PRM1Z8'' ''KIM101''))"
    by blast+
  have e: "''PRM1Z8'' @ '' requires '' @ py_join '' or '' (compatible_controllers ?info)
                 @ '', but controller is '' @ ''KIM101''
      = ''PRM1Z8 requires KDC101 or TDC001, but controller is KIM101''"
    by simp
  from a b [unfolded e] d show ?thesis by blast
qed





section \<open>Properties of the stage auto-detection\<close>










section \<open>Properties of saving and of disconnecting\<close>

text \<open>
  Claim C3, as stated, fails: the save is not an atomic replacement. With the file
  holding the document \<open>{}\<close>, a save whose write fails after one character returns
  \<open>False\<close> and leaves the file holding \<open>{\<close>, which does not parse, although the
  file parsed before.
\<close>

theorem save_device_config_not_atomic:
  "save_device_config empty_dict_json (WriteFails 1) (Some ''{}'')
      \<lparr>version = None, controllers = None\<rparr> = (False, Some ''{'')
   \<and> json_loads empty_dict_json ''{}'' = Some \<lparr>version = None, controllers = None\<rparr>
   \<and> json_loads empty_dict_json ''{'' = None"
  by (simp add: save_device_config_def empty_dict_json_def)

text \<open>
  Claim C3, amended. \<open>save_device_config\<close> overwrites the file in place. Without an
  I/O error it returns \<open>True\<close> and the file holds the complete new document. If
  creating the directory or opening the file fails, it returns \<open>False\<close> and the file
  is untouched. If the write fails after \<open>k\<close> characters, it returns \<open>False\<close> and the
  file holds exactly the first \<open>k\<close> characters of the new document; when that text
  does not parse, the next load falls back to the empty default configuration.
\<close>

theorem save_device_config_in_place:
  "save_device_config J NoFault file cfg = (True, Some (json_dumps J cfg))
   \<and> (fault = MkdirFails \<or> fault = OpenFails
        \<longrightarrow> save_device_config J fault file cfg = (False, file))
   \<and> save_device_config J (WriteFails k) file cfg
        = (False, Some (take k (json_dumps J cfg)))
   \<and> (json_loads J (take k (json_dumps J cfg)) = None
        \<longrightarrow> load_device_config J (snd (save_device_config J (WriteFails k) file cfg))
            = default_config)"
  by (auto simp: save_device_config_def load_device_config_def)

theorem save_device_config_in_place_witness:
  "save_device_config empty_dict_json OpenFails (Some ''{}'')
      \<lparr>version = None, controllers = None\<rparr> = (False, Some ''{}'')
   \<and> json_loads empty_dict_json (take 1 (json_dumps empty_dict_json
         \<lparr>version = None, controllers = None\<rparr>)) = None
   \<and> load_device_config empty_dict_json
         (snd (save_device_config empty_dict_json (WriteFails 1) (Some ''{}'')
                 \<lparr>version = None, controllers = None\<rparr>)) = default_config"
proof -
  have u: "json_loads empty_dict_json (take 1 (json_dumps empty_dict_json
         \<lparr>version = None, controllers = None\<rparr>)) = None"
    by (simp add: empty_dict_json_def)
  note inst = save_device_config_in_place
         [of empty_dict_json "Some ''{}''" "\<lparr>version = None, controllers = None\<rparr>" OpenFails 1]
  from inst have a: "save_device_config empty_dict_json OpenFails (Some ''{}'')
      \<lparr>version = None, controllers = None\<rparr> = (False, Some ''{}'')"
    by blast
  from inst u have b: "load_device_config empty_dict_json
         (snd (save_device_config empty_dict_json (WriteFails 1) (Some ''{}'')
                 \<lparr>version = None, controllers = None\<rparr>)) = default_config"
    by blast
  from a u b show ?thesis by blast
qed

lemma set_state_fields:
  "state (snd (set_state st self)) = st"
  "on_state_change (snd (set_state st self)) = on_state_change self"
  by (simp_all add: set_state_def split: option.splits)

lemma KDC101_disconnect_after:
  "state (fst (snd (KDC101_disconnect self))) = DISCONNECTED"
  "device (fst (snd (KDC101_disconnect self))) = None"
  "on_state_change (fst (snd (KDC101_disconnect self))) = on_state_change self"
  by (auto simp: KDC101_disconnect_def set_state_def Let_def split: option.splits prod.splits)

lemma KDC101_disconnect_result:
  "fst (KDC101_disconnect self) =
     (case on_state_change self of
        None \<Rightarrow> Inr ()
      | Some callback \<Rightarrow> (case callback DISCONNECTED of None \<Rightarrow> Inr () | Some e \<Rightarrow> Inl e))"
  by (auto simp: KDC101_disconnect_def set_state_def Let_def split: option.splits prod.splits)

lemma KDC101_disconnect_idle:
  assumes "state self = DISCONNECTED" and "device self = None"
  shows "snd (KDC101_disconnect self) = (self, [])"
  using assms by (auto simp: KDC101_disconnect_def set_state_def Let_def split: option.splits)

lemma KDC101_disconnect_times_after:
  "0 < n \<Longrightarrow> state (snd (KDC101_disconnect_times n self)) = DISCONNECTED
     \<and> device (snd (KDC101_disconnect_times n self)) = None"
proof (induction n arbitrary: self)
  case 0
  then show ?case by simp
next
  case (Suc n)
  show ?case
  proof (cases n)
    case 0
    then show ?thesis
      using KDC101_disconnect_after(1,2) [of self]
      by (simp add: split_def Let_def)
  next
    case (Suc m)
    then have "0 < n" by simp
    from Suc.IH [OF this, of "fst (snd (KDC101_disconnect self))"]
    show ?thesis by (simp add: split_def Let_def)
  qed
qed

lemma KDC101_disconnect_quiet:
  "observer_accepts self DISCONNECTED \<Longrightarrow> fst (KDC101_disconnect self) = Inr ()"
  by (auto simp: KDC101_disconnect_result observer_accepts_def split: option.splits)

lemma KDC101_disconnect_times_quiet:
  "observer_accepts self DISCONNECTED
     \<Longrightarrow> \<forall>r \<in> set (fst (KDC101_disconnect_times n self)). r = Inr ()"
proof (induction n arbitrary: self)
  case 0
  then show ?case by simp
next
  case (Suc n)
  from Suc.prems have first: "fst (KDC101_disconnect self) = Inr ()"
    by (rule KDC101_disconnect_quiet)
  from Suc.prems have "observer_accepts (fst (snd (KDC101_disconnect self))) DISCONNECTED"
    by (simp add: observer_accepts_def KDC101_disconnect_after(3))
  from Suc.IH [OF this] first show ?case
    by (simp add: split_def Let_def)
qed

text \<open>
  Claim C2, as stated, fails: \<open>disconnect()\<close> calls \<open>_set_state\<close> outside its
  \<open>try\<close> block, so an exception raised by the registered state-change callback
  leaves \<open>disconnect()\<close>.
\<close>

theorem KDC101_disconnect_raises_with_observer:
  "fst (KDC101_disconnect
          (set_callbacks (Some (\<lambda>st. Some ObserverError)) (KDC101Controller_init 27123456 1)))
     = Inl ObserverError"
  by (simp add: KDC101_disconnect_def set_callbacks_def KDC101Controller_init_def set_state_def)

text \<open>
  Claim C2, amended. After \<open>n \<ge> 1\<close> consecutive calls of \<open>disconnect()\<close>, from any
  state and whatever the backend teardown calls do, the state is \<open>DISCONNECTED\<close> and
  the handle is released. If the state-change callback (if any) returns normally
  when told \<open>DISCONNECTED\<close>, none of the calls raises; and on a session that is
  already disconnected, with no handle, the call changes nothing and issues no
  backend call.
\<close>

theorem KDC101_disconnect_idempotent:
  assumes "0 < n"
  shows "state (snd (KDC101_disconnect_times n self)) = DISCONNECTED
    \<and> device (snd (KDC101_disconnect_times n self)) = None
    \<and> (observer_accepts self DISCONNECTED
        \<longrightarrow> (\<forall>r \<in> set (fst (KDC101_disconnect_times n self)). r = Inr ())
          \<and> fst (KDC101_disconnect self) = Inr ()
          \<and> (state self = DISCONNECTED \<and> device self = None
               \<longrightarrow> KDC101_disconnect self = (Inr (), self, [])))"
proof -
  have "KDC101_disconnect self = (Inr (), self, [])"
    if "observer_accepts self DISCONNECTED" "state self = DISCONNECTED" "device self = None"
  proof -
    from that(1) have "fst (KDC101_disconnect self) = Inr ()"
      by (rule KDC101_disconnect_quiet)
    moreover from that(2,3) have "snd (KDC101_disconnect self) = (self, [])"
      by (rule KDC101_disconnect_idle)
    ultimately show ?thesis by (metis prod.collapse)
  qed
  moreover have "fst (KDC101_disconnect self) = Inr ()" if "observer_accepts self DISCONNECTED"
    using that by (rule KDC101_disconnect_quiet)
  ultimately show ?thesis
    using KDC101_disconnect_times_after [OF assms, of self] KDC101_disconnect_times_quiet [of self n]
    by blast
qed

theorem KDC101_disconnect_idempotent_witness:
  "(0::nat) < 2
   \<and> observer_accepts
        ((KDC101Controller_init 27123456 1)
           \<lparr>state := MOVING, device := Some \<lparr>throws = (\<lambda>call. True), IsMoving = (\<lambda>t. True)\<rparr>\<rparr>)
        DISCONNECTED
   \<and> state (snd (KDC101_disconnect_times 2
        ((KDC101Controller_init 27123456 1)
           \<lparr>state := MOVING, device := Some \<lparr>throws = (\<lambda>call. True), IsMoving = (\<lambda>t. True)\<rparr>\<rparr>)))
       = DISCONNECTED
   \<and> set (fst (KDC101_disconnect_times 2
        ((KDC101Controller_init 27123456 1)
           \<lparr>state := MOVING, device := Some \<lparr>throws = (\<lambda>call. True), IsMoving = (\<lambda>t. True)\<rparr>\<rparr>)))
       \<subseteq> {Inr ()}
   \<and> KDC101_disconnect (KDC101Controller_init 27123456 1)
       = (Inr (), KDC101Controller_init 27123456 1, [])"
proof -
  let ?busy = "(KDC101Controller_init 27123456 1)
           \<lparr>state := MOVING, device := Some \<lparr>throws = (\<lambda>call. True), IsMoving = (\<lambda>t. True)\<rparr>\<rparr>"
  have two: "(0::nat) < 2" by simp
  have one: "(0::nat) < 1" by simp
  have q1: "observer_accepts ?busy DISCONNECTED"
    by (simp add: observer_accepts_def KDC101Controller_init_def)
  have q2: "observer_accepts (KDC101Controller_init 27123456 1) DISCONNECTED"
    by (simp add: observer_accepts_def KDC101Controller_init_def)
  have idle: "state (KDC101Controller_init 27123456 1) = DISCONNECTED
      \<and> device (KDC101Controller_init 27123456 1) = None"
    by (simp add: KDC101Controller_init_def)
  from KDC101_disconnect_idempotent [OF two, of ?busy] q1
  have a: "state (snd (KDC101_disconnect_times 2 ?busy)) = DISCONNECTED"
    and b: "set (fst (KDC101_disconnect_times 2 ?busy)) \<subseteq> {Inr ()}"
    by blast+
  from KDC101_disconnect_idempotent [OF one, of "KDC101Controller_init 27123456 1"] q2 idle
  have c: "KDC101_disconnect (KDC101Controller_init 27123456 1)
       = (Inr (), KDC101Controller_init 27123456 1, [])"
    by blast
  from two q1 a b c show ?thesis by blast
qed


section \<open>Properties of the motion methods\<close>

lemma set_state_quiet:
  "observer_returns self \<Longrightarrow> set_state st self = (None, self\<lparr>state := st\<rparr>)"
  by (auto simp: observer_returns_def set_state_def split: option.splits)

lemma observer_returns_state [simp]:
  "observer_returns (self\<lparr>state := st\<rparr>) = observer_returns self"
  by (simp add: observer_returns_def)

lemma KDC101_movement_failed_quiet:
  "observer_returns self
     \<Longrightarrow> KDC101_movement_failed self calls = (Inl MovementError, self\<lparr>state := ERROR\<rparr>, calls)"
  by (simp add: KDC101_movement_failed_def set_state_quiet)

text \<open>
  Claim C1, as stated, fails: on a \<open>KDC101Controller\<close> that holds no backend handle
  (never connected, or disconnected), \<open>move_relative(1, wait=True)\<close> returns \<open>False\<close>;
  it neither moves nor raises, and the object is unchanged.
\<close>

theorem KDC101_move_relative_silent_without_device:
  "KDC101_move_relative (KDC101Controller_init 27123456 1) 0 1 True 60
     = (Inr False, KDC101Controller_init 27123456 1, [])"
  by (simp add: KDC101_move_relative_def KDC101Controller_init_def)

text \<open>
  Claim C1, amended, for \<open>KDC101Controller.move_relative(distance, wait=True, timeout)\<close>.
  Without a backend handle the call returns \<open>False\<close>, issues no backend call and
  changes nothing. With a handle, and a state-change callback (if any) that returns
  normally, the call issues exactly one backend command \<open>MoveRelative\<close>, forward for a
  positive distance and backward otherwise, of magnitude \<open>|distance|\<close> and timeout
  \<open>int(timeout * 1000)\<close>; then either the backend accepted it and reported the motion
  finished before the timeout, and the call returns \<open>True\<close> in state \<open>CONNECTED\<close>, or
  the backend threw or the timeout passed, and the call raises \<open>MovementError\<close> in
  state \<open>ERROR\<close>.
\<close>

theorem KDC101_move_relative_outcomes:
  "(device self = None \<longrightarrow>
       KDC101_move_relative self now distance True timeout = (Inr False, self, []))
   \<and> (\<forall>dev. device self = Some dev \<and> observer_returns self \<longrightarrow>
         (let call = MoveRelative (if distance > 0 then Forward else Backward) \<bar>distance\<bar>
                       (py_trunc (timeout * 1000))
          in (\<not> throws dev call \<and> wait_while_moving (IsMoving dev) now timeout now
                \<and> KDC101_move_relative self now distance True timeout
                    = (Inr True, self\<lparr>state := CONNECTED\<rparr>, [call]))
             \<or> ((throws dev call \<or> \<not> wait_while_moving (IsMoving dev) now timeout now)
                \<and> KDC101_move_relative self now distance True timeout
                    = (Inl MovementError, self\<lparr>state := ERROR\<rparr>, [call]))))"
proof (intro conjI allI impI)
  assume "device self = None"
  then show "KDC101_move_relative self now distance True timeout = (Inr False, self, [])"
    by (simp add: KDC101_move_relative_def)
next
  fix dev
  assume a: "device self = Some dev \<and> observer_returns self"
  then have q: "observer_returns self" and d: "device self = Some dev" by simp_all
  have q1: "observer_returns (self\<lparr>state := MOVING\<rparr>)" using q by simp
  show "let call = MoveRelative (if distance > 0 then Forward else Backward) \<bar>distance\<bar>
                       (py_trunc (timeout * 1000))
          in (\<not> throws dev call \<and> wait_while_moving (IsMoving dev) now timeout now
                \<and> KDC101_move_relative self now distance True timeout
                    = (Inr True, self\<lparr>state := CONNECTED\<rparr>, [call]))
             \<or> ((throws dev call \<or> \<not> wait_while_moving (IsMoving dev) now timeout now)
                \<and> KDC101_move_relative self now distance True timeout
                    = (Inl MovementError, self\<lparr>state := ERROR\<rparr>, [call]))"
    using d
    by (simp add: KDC101_move_relative_def Let_def set_state_quiet [OF q] set_state_quiet [OF q1]
          KDC101_movement_failed_quiet [OF q1])
qed

lemma wait_while_moving_idle: "\<not> moving now \<Longrightarrow> wait_while_moving moving start timeout now"
  by (subst wait_while_moving.simps) simp

theorem KDC101_move_relative_outcomes_witness:
  "device (KDC101Controller_init 27123456 1) = None
   \<and> KDC101_move_relative (KDC101Controller_init 27123456 1) 0 (1 / 2) True 60
       = (Inr False, KDC101Controller_init 27123456 1, [])
   \<and> observer_returns (connected_KDC101 \<lparr>throws = (\<lambda>call. False), IsMoving = (\<lambda>t. False)\<rparr>)
   \<and> KDC101_move_relative
         (connected_KDC101 \<lparr>throws = (\<lambda>call. False), IsMoving = (\<lambda>t. False)\<rparr>) 0 (1 / 2) True 60
       = (Inr True, connected_KDC101 \<lparr>throws = (\<lambda>call. False), IsMoving = (\<lambda>t. False)\<rparr>,
          [MoveRelative Forward (1 / 2) 60000])
   \<and> KDC101_move_relative
         (connected_KDC101 \<lparr>throws = (\<lambda>call. True), IsMoving = (\<lambda>t. False)\<rparr>) 0 (- 2) True 60
       = (Inl MovementError,
          (connected_KDC101 \<lparr>throws = (\<lambda>call. True), IsMoving = (\<lambda>t. False)\<rparr>)\<lparr>state := ERROR\<rparr>,
          [MoveRelative Backward 2 60000])"
proof -
  let ?ok = "\<lparr>throws = (\<lambda>call. False), IsMoving = (\<lambda>t. False)\<rparr>"
  let ?bad = "\<lparr>throws = (\<lambda>call. True), IsMoving = (\<lambda>t. False)\<rparr>"
  have none: "device (KDC101Controller_init 27123456 1) = None"
    by (simp add: KDC101Controller_init_def)
  have dev: "device (connected_KDC101 ?ok) = Some ?ok" "device (connected_KDC101 ?bad) = Some ?bad"
    and obs: "observer_returns (connected_KDC101 ?ok)" "observer_returns (connected_KDC101 ?bad)"
    and st: "(connected_KDC101 ?ok)\<lparr>state := CONNECTED\<rparr> = connected_KDC101 ?ok"
    by (simp_all add: connected_KDC101_def KDC101Controller_init_def observer_returns_def)
  have ms: "py_trunc (60 * 1000) = 60000" "py_trunc 60000 = 60000"
    by (simp_all add: py_trunc_def)
  have idle: "wait_while_moving (IsMoving ?ok) 0 60 0"
    by (rule wait_while_moving_idle) simp
  from KDC101_move_relative_outcomes [of "KDC101Controller_init 27123456 1" 0 "1 / 2" 60] none
  have a: "KDC101_move_relative (KDC101Controller_init 27123456 1) 0 (1 / 2) True 60
       = (Inr False, KDC101Controller_init 27123456 1, [])"
    by blast
  from KDC101_move_relative_outcomes [of "connected_KDC101 ?ok" 0 "1 / 2" 60] dev(1) obs(1)
  have "(\<not> throws ?ok (MoveRelative Forward (1 / 2) 60000)
          \<and> wait_while_moving (IsMoving ?ok) 0 60 0
          \<and> KDC101_move_relative (connected_KDC101 ?ok) 0 (1 / 2) True 60
              = (Inr True, (connected_KDC101 ?ok)\<lparr>state := CONNECTED\<rparr>,
                 [MoveRelative Forward (1 / 2) 60000]))
        \<or> ((throws ?ok (MoveRelative Forward (1 / 2) 60000)
             \<or> \<not> wait_while_moving (IsMoving ?ok) 0 60 0)
          \<and> KDC101_move_relative (connected_KDC101 ?ok) 0 (1 / 2) True 60
              = (Inl MovementError, (connected_KDC101 ?ok)\<lparr>state := ERROR\<rparr>,
                 [MoveRelative Forward (1 / 2) 60000]))"
    by (simp add: Let_def ms)
  with idle have b: "KDC101_move_relative (connected_KDC101 ?ok) 0 (1 / 2) True 60
       = (Inr True, connected_KDC101 ?ok, [MoveRelative Forward (1 / 2) 60000])"
    by (simp add: st)
  from KDC101_move_relative_outcomes [of "connected_KDC101 ?bad" 0 "- 2" 60] dev(2) obs(2)
  have "(\<not> throws ?bad (MoveRelative Backward 2 60000)
          \<and> wait_while_moving (IsMoving ?bad) 0 60 0
          \<and> KDC101_move_relative (connected_KDC101 ?bad) 0 (- 2) True 60
              = (Inr True, (connected_KDC101 ?bad)\<lparr>state := CONNECTED\<rparr>,
                 [MoveRelative Backward 2 60000]))
        \<or> ((throws ?bad (MoveRelative Backward 2 60000)
             \<or> \<not> wait_while_moving (IsMoving ?bad) 0 60 0)
          \<and> KDC101_move_relative (connected_KDC101 ?bad) 0 (- 2) True 60
              = (Inl MovementError, (connected_KDC101 ?bad)\<lparr>state := ERROR\<rparr>,
                 [MoveRelative Backward 2 60000]))"
    by (simp add: Let_def ms)
  then have c: "KDC101_move_relative (connected_KDC101 ?bad) 0 (- 2) True 60
       = (Inl MovementError, (connected_KDC101 ?bad)\<lparr>state := ERROR\<rparr>,
          [MoveRelative Backward 2 60000])"
    by simp
  from none a obs(1) b c show ?thesis by blast
qed

text \<open>
  The polling loop on two concrete handles: a motion that ends after a quarter of a
  second is waited for; a motion that never ends runs into a timeout of a fifth of
  a second, and the move raises \<open>MovementError\<close>.
\<close>

lemma wait_while_moving_finishes:
  "wait_while_moving (\<lambda>t. t < 1 / 4) 0 60 0"
  by (subst wait_while_moving.simps, simp)+

lemma wait_while_moving_times_out:
  "\<not> wait_while_moving (\<lambda>t. True) 0 (1 / 5) 0"
  by (subst wait_while_moving.simps, simp)+

lemma KDC101_move_relative_timeout:
  "KDC101_move_relative (connected_KDC101 \<lparr>throws = (\<lambda>call. False), IsMoving = (\<lambda>t. True)\<rparr>)
      0 1 True (1 / 5)
     = (Inl MovementError,
        (connected_KDC101 \<lparr>throws = (\<lambda>call. False), IsMoving = (\<lambda>t. True)\<rparr>)\<lparr>state := ERROR\<rparr>,
        [MoveRelative Forward 1 200])"
  by (simp add: KDC101_move_relative_def connected_KDC101_def KDC101Controller_init_def
        set_state_def KDC101_movement_failed_def wait_while_moving_times_out py_trunc_def)

lemma PIA13_step_size:
  "get_stage_info ''PIA13'' =
     Some \<lparr>compatible_controllers = [''KIM101''], units = ''mm'', travel = Some 13,
           step_size = Some (1 / 50000)\<rparr>"
  by (simp add: get_stage_info_def STAGES_def)

text \<open>
  Claim C5 against the code: on a connected \<open>KIM101Controller\<close> configured with the
  stage \<open>PIA13\<close> (step size 0.00002), \<open>move_relative(0.001)\<close> computes a direction and
  a step count and calls \<open>self.jog(direction, steps)\<close>, but \<open>KIM101Controller.jog\<close>
  takes the direction only: the call raises \<open>TypeError\<close> and no jog reaches the
  backend.
\<close>

theorem KIM101_move_relative_type_error:
  "KIM101_move_relative connected_KIM101 (1 / 1000) True 60 = (Inl TypeError, connected_KIM101, [])"
  by (simp add: KIM101_move_relative_def InertialController_move_relative_def
        KIM101_call_jog_def connected_KIM101_def PIA13_step_size Let_def)

lemma KIM101_move_relative_never_jogs:
  "KIM101_move_relative self distance wait timeout = (Inl TypeError, self, [])
   \<or> KIM101_move_relative self distance wait timeout = (Inl ZeroDivisionError, self, [])"
  by (simp add: KIM101_move_relative_def InertialController_move_relative_def
        KIM101_call_jog_def Let_def)

lemma InertialController_move_relative_conversion:
  assumes "stage_config self = Some cfg" and "step_size cfg = Some s" and "0 < s"
  shows "InertialController_move_relative call_jog self distance wait timeout
    = call_jog self [if distance > 0 then 1 else - 1, \<lfloor>\<bar>distance\<bar> / s\<rfloor>]"
  using assms
  by (simp add: InertialController_move_relative_def Let_def py_trunc_def)

text \<open>
  Claim C9. \<open>home(wait, timeout)\<close> of the inertial controller returns \<open>False\<close> for
  every argument and in every state of the object, connected or not; it issues no
  backend call and leaves the object unchanged. Seeking the hardware limit is a
  different operation, \<open>move_to_limit\<close>: on a connected controller (no callback
  registered, channel 1..4) it starts a jog in the given direction, stops it after
  the timeout, resets the step counter and returns \<open>True\<close>.
\<close>

theorem KIM101_home_returns_false:
  "KIM101_home self wait timeout = (Inr False, self, [])
   \<and> (\<forall>dev. kim_device self = Some dev \<and> on_state_change self = None
            \<and> channel self \<in> set [1, 2, 3, 4] \<longrightarrow>
         KIM101_move_to_limit self now direction limit_timeout
           = (Inr True, self\<lparr>state := CONNECTED, step_count := 0\<rparr>,
              [Jog (channel self) (if direction > 0 then Increase else Decrease),
               Stop (channel self)]))"
  by (auto simp: KIM101_home_def InertialController_home_def KIM101_move_to_limit_def
        KIM101_jog_continuous_def KIM101_stop_def get_channel_enum_def set_state_def Let_def)

theorem KIM101_home_returns_false_witness:
  "KIM101_home connected_KIM101 True 60 = (Inr False, connected_KIM101, [])
   \<and> kim_device connected_KIM101 = Some \<lparr>throws = (\<lambda>call. False), IsMoving = (\<lambda>t. False)\<rparr>
   \<and> on_state_change connected_KIM101 = None
   \<and> channel connected_KIM101 \<in> set [1, 2, 3, 4]
   \<and> KIM101_move_to_limit connected_KIM101 0 1 5
       = (Inr True, connected_KIM101\<lparr>state := CONNECTED, step_count := 0\<rparr>,
          [Jog 1 Increase, Stop 1])"
proof -
  have h: "kim_device connected_KIM101 = Some \<lparr>throws = (\<lambda>call. False), IsMoving = (\<lambda>t. False)\<rparr>"
    "on_state_change connected_KIM101 = None"
    "channel connected_KIM101 \<in> set [1, 2, 3, 4]"
    and ch: "channel connected_KIM101 = 1"
    by (simp_all add: connected_KIM101_def)
  note inst = KIM101_home_returns_false [of connected_KIM101 True 60 0 1 5]
  from inst have a: "KIM101_home connected_KIM101 True 60 = (Inr False, connected_KIM101, [])"
    by blast
  from inst h have "KIM101_move_to_limit connected_KIM101 0 1 5
       = (Inr True, connected_KIM101\<lparr>state := CONNECTED, step_count := 0\<rparr>,
          [Jog (channel connected_KIM101) (if (1::int) > 0 then Increase else Decrease),
           Stop (channel connected_KIM101)])"
    by blast
  then have b: "KIM101_move_to_limit connected_KIM101 0 1 5
       = (Inr True, connected_KIM101\<lparr>state := CONNECTED, step_count := 0\<rparr>,
          [Jog 1 Increase, Stop 1])"
    by (simp add: ch)
  from a h b show ?thesis by blast
qed

end
